theory Spec2Isabelle
  imports Complex_Main "HOL-Library.Sublist"
begin

section \<open>JavaScript values used by Scatter.tsx\<close>

text \<open>
  A JavaScript number is NaN, one of the two infinities, or a finite value. The finite
  doubles are embedded in the reals: the component only compares numbers, and the
  comparison of two finite doubles is exact. The two zeros are not told apart, as
  \<open>>=\<close> and \<open><=\<close> do not tell them apart either.
\<close>

datatype jsnum = NaN | NegInf | Fin real | PosInf

text \<open>\<open>a <= b\<close>: false as soon as one side is NaN.\<close>

fun js_le :: "jsnum \<Rightarrow> jsnum \<Rightarrow> bool" where
  "js_le NaN _ = False"
| "js_le _ NaN = False"
| "js_le NegInf _ = True"
| "js_le _ PosInf = True"
| "js_le (Fin a) (Fin b) = (a \<le> b)"
| "js_le _ _ = False"

text \<open>\<open>a >= b\<close> and \<open>a < b\<close>.\<close>

definition js_ge :: "jsnum \<Rightarrow> jsnum \<Rightarrow> bool" where
  "js_ge a b = js_le b a"

definition js_lt :: "jsnum \<Rightarrow> jsnum \<Rightarrow> bool" where
  "js_lt a b = (js_le a b \<and> a \<noteq> b)"

text \<open>
  \<open>Math.min(...values)\<close> and \<open>Math.max(...values)\<close>: the running value starts
  at \<open>+Infinity\<close> (\<open>-Infinity\<close>), a NaN argument makes the result NaN, and an empty
  argument list returns the starting value.
\<close>

definition Math_min :: "jsnum list \<Rightarrow> jsnum" where
  "Math_min values =
     foldl (\<lambda>lowest number.
              if lowest = NaN \<or> number = NaN then NaN
              else if js_lt number lowest then number else lowest)
           PosInf values"

definition Math_max :: "jsnum list \<Rightarrow> jsnum" where
  "Math_max values =
     foldl (\<lambda>highest number.
              if highest = NaN \<or> number = NaN then NaN
              else if js_lt highest number then number else highest)
           NegInf values"

text \<open>\<open>a || b\<close> on an operand pair \<open>boolean\<close>, \<open>boolean | undefined\<close>.\<close>

definition js_or :: "bool \<Rightarrow> bool option \<Rightarrow> bool option" where
  "js_or a b = (if a then Some True else b)"

text \<open>An identifier is \<open>string | number\<close> (a point's \<open>id\<close>, a series' \<open>id\<close>).\<close>

datatype ident = StrId string | NumId jsnum

section \<open>The data model\<close>

text \<open>
  Record fields carry a prefix where the source's field name is taken in HOL or is
  shared by two object types: \<open>pt_x\<close> is \<open>scatterPoint.x\<close>, \<open>series_data\<close> is
  \<open>series.data\<close>, \<open>dp_x\<close> is \<open>dataPoint.x\<close>.
\<close>

record ScatterValueType =
  pt_x :: jsnum
  pt_y :: jsnum
  pt_id :: ident

text \<open>
  A highlight scope is an object with the properties \<open>highlighted\<close> and \<open>faded\<close>,
  each a string. The series may give any part of it (\<open>Partial<HighlightScope>\<close>) or
  nothing (\<open>undefined\<close>), and a property it gives may be present with the value
  \<open>undefined\<close>. An object is the map from the names of the properties it has to their
  values: a property that is absent maps to \<open>None\<close>, a property present with the
  value \<open>undefined\<close> to \<open>Some ScopeUndefined\<close>.
\<close>

datatype scope_value = ScopeUndefined | ScopeString string

type_synonym HighlightScope = "string \<rightharpoonup> scope_value"

record DefaultizedScatterSeriesType =
  series_id :: ident
  series_data :: "ScatterValueType list"
  series_highlightScope :: "HighlightScope option"
  series_disableHover :: "bool option"

text \<open>
  Modelled from the spec: the declaration of \<open>D3Scale\<close> is outside this file; a scale
  is a pure function mapping a domain value to a pixel coordinate, plus a queryable
  pixel range (\<open>scale.range()\<close>).
\<close>

record D3Scale =
  scale_fn :: "jsnum \<Rightarrow> jsnum"
  scale_range :: "jsnum list"

text \<open>\<open>{ type: 'scatter', seriesId, dataIndex }\<close>: the identifier of one point.\<close>

record ScatterItemIdentifier =
  item_type :: string
  seriesId :: ident
  dataIndex :: nat

text \<open>
  The attributes of an SVG element: numbers, strings, event handlers, or \<open>undefined\<close>.
  A handler takes the event and yields the effect of the callback it runs.
\<close>

datatype ('ev, 'eff) attr = Num jsnum | Str string | Handler "'ev \<Rightarrow> 'eff" | Undefined

type_synonym ('ev, 'eff) attrs = "string \<rightharpoonup> ('ev, 'eff) attr"

record ('ev, 'eff) circle =
  key :: ident
  props :: "('ev, 'eff) attrs"

datatype ('ev, 'eff) group = G (children: "('ev, 'eff) circle list")

text \<open>The props of the component (\<open>ScatterProps\<close>).\<close>

record ('ev, 'eff) ScatterProps =
  series :: DefaultizedScatterSeriesType
  xScale :: D3Scale
  yScale :: D3Scale
  markerSize :: jsnum
  color :: string
  onItemClick :: "('ev \<Rightarrow> ScatterItemIdentifier \<Rightarrow> 'eff) option"

text \<open>
  The two fields the component reads from the interaction context. The \<open>item\<close> is
  \<open>null\<close> (\<open>None\<close>) or the object describing the item pointed at, of type \<open>'i\<close>.
\<close>

record 'i InteractionContext =
  item :: "'i option"
  useVoronoiInteraction :: bool

text \<open>One entry of \<open>cleanData\<close>.\<close>

record ('ev, 'eff) dataPoint =
  dp_x :: jsnum
  dp_y :: jsnum
  dp_id :: ident
  dp_dataIndex :: nat
  isHighlighted :: bool
  isFaded :: bool
  interactionProps :: "('ev, 'eff) attrs"

text \<open>
  The functions Scatter.tsx imports from other modules of the package
  (\<open>hooks/useScale\<close>, \<open>hooks/useInteractionItemProps\<close>) are parameters of the model,
  together with the two number primitives the markup uses: the conversion of a number
  to a string in the template literal and the multiplication of doubles. They are pure
  functions; \<open>useInteractionItemProps\<close> returns \<open>getInteractionItemProps\<close>, a function
  from a point's identifier to the attributes spread onto its circle. The field gives
  what the returned function computes; the function object itself is built in the call
  and is a new one in every render.
\<close>

record ('i, 'ev, 'eff) env =
  getValueToPositionMapper :: "D3Scale \<Rightarrow> jsnum \<Rightarrow> jsnum"
  getIsHighlighted :: "'i option \<Rightarrow> ScatterItemIdentifier \<Rightarrow> HighlightScope \<Rightarrow> bool"
  getIsFaded :: "'i option \<Rightarrow> ScatterItemIdentifier \<Rightarrow> HighlightScope \<Rightarrow> bool"
  useInteractionItemProps ::
    "HighlightScope \<Rightarrow> bool option \<Rightarrow> ScatterItemIdentifier \<Rightarrow> ('ev, 'eff) attrs"
  Number_toString :: "jsnum \<Rightarrow> string"
  Number_multiply :: "jsnum \<Rightarrow> jsnum \<Rightarrow> jsnum"

section \<open>The component\<close>

text \<open>
  Line 45, the callback of the first \<open>useMemo\<close>: the object spread
  \<open>{ highlighted: 'item', faded: 'global', ...series.highlightScope }\<close>. Spreading
  \<open>undefined\<close> adds nothing; spreading an object copies every property it has over
  the default, also one whose value is \<open>undefined\<close>.
\<close>

definition highlightScope :: "DefaultizedScatterSeriesType \<Rightarrow> HighlightScope" where
  "highlightScope srs =
     [''highlighted'' \<mapsto> ScopeString ''item'', ''faded'' \<mapsto> ScopeString ''global''] ++
       (case series_highlightScope srs of None \<Rightarrow> Map.empty | Some scope \<Rightarrow> scope)"

text \<open>
  Lines 75 to 97, the loop: \<open>i\<close> is the loop index, the list is \<open>series.data\<close> from
  index \<open>i\<close> on, \<open>temp\<close> is the array the loop pushes to.
\<close>

fun cleanData_loop ::
  "('i, 'ev, 'eff) env \<Rightarrow> (jsnum \<Rightarrow> jsnum) \<Rightarrow> (jsnum \<Rightarrow> jsnum) \<Rightarrow>
   jsnum \<Rightarrow> jsnum \<Rightarrow> jsnum \<Rightarrow> jsnum \<Rightarrow> ident \<Rightarrow> 'i option \<Rightarrow> HighlightScope \<Rightarrow>
   (ScatterItemIdentifier \<Rightarrow> ('ev, 'eff) attrs) \<Rightarrow>
   nat \<Rightarrow> ScatterValueType list \<Rightarrow> ('ev, 'eff) dataPoint list \<Rightarrow> ('ev, 'eff) dataPoint list"
where
  "cleanData_loop E getXPosition getYPosition minXRange maxXRange minYRange maxYRange
     sid itm hs getInteractionItemProps i [] temp = temp"
| "cleanData_loop E getXPosition getYPosition minXRange maxXRange minYRange maxYRange
     sid itm hs getInteractionItemProps i (scatterPoint # rest) temp =
     (let x = getXPosition (pt_x scatterPoint);
          y = getYPosition (pt_y scatterPoint);
          isInRange = (js_ge x minXRange \<and> js_le x maxXRange \<and>
                       js_ge y minYRange \<and> js_le y maxYRange);
          pointCtx = \<lparr>item_type = ''scatter'', seriesId = sid, dataIndex = i\<rparr>
      in cleanData_loop E getXPosition getYPosition minXRange maxXRange minYRange maxYRange
           sid itm hs getInteractionItemProps (i + 1) rest
           (if isInRange then
              (let highlighted = getIsHighlighted E itm pointCtx hs
               in temp @
                  [\<lparr>dp_x = x, dp_y = y, dp_id = pt_id scatterPoint, dp_dataIndex = i,
                    isHighlighted = highlighted,
                    isFaded = (\<not> highlighted \<and> getIsFaded E itm pointCtx hs),
                    interactionProps = getInteractionItemProps pointCtx\<rparr>])
            else temp))"

text \<open>
  Lines 54 to 99, the callback of the second \<open>useMemo\<close>. It closes over the render's
  \<open>xScale\<close>, \<open>yScale\<close>, \<open>series\<close>, \<open>item\<close>, \<open>highlightScope\<close> and
  \<open>getInteractionItemProps\<close>.
\<close>

definition cleanData ::
  "('i, 'ev, 'eff) env \<Rightarrow> D3Scale \<Rightarrow> D3Scale \<Rightarrow> DefaultizedScatterSeriesType \<Rightarrow> 'i option \<Rightarrow>
   HighlightScope \<Rightarrow> (ScatterItemIdentifier \<Rightarrow> ('ev, 'eff) attrs) \<Rightarrow> ('ev, 'eff) dataPoint list"
where
  "cleanData E xsc ysc srs itm hs getInteractionItemProps =
     (let getXPosition = getValueToPositionMapper E xsc;
          getYPosition = getValueToPositionMapper E ysc;
          xRange = scale_range xsc;
          yRange = scale_range ysc;
          minXRange = Math_min xRange;
          maxXRange = Math_max xRange;
          minYRange = Math_min yRange;
          maxYRange = Math_max yRange
      in cleanData_loop E getXPosition getYPosition minXRange maxXRange minYRange maxYRange
           (series_id srs) itm hs getInteractionItemProps 0 (series_data srs) [])"

text \<open>
  What \<open>Object.is\<close> sees of a value: \<open>undefined\<close>, \<open>null\<close>, a primitive (a string or
  a number, compared by value), or the reference of an object (an array, a function, a
  scale, a scope), compared as a reference whatever the object holds. Two of these are
  equal exactly when \<open>Object.is\<close> holds of the values.
\<close>

datatype dep = Undefined_dep | Null_dep | Prim_dep ident | Object_dep nat

text \<open>
  \<open>React.useMemo(calculateValue, dependencies)\<close>. The hook's cell keeps the
  dependencies and the value of the last computation; the callback runs on the first
  render and whenever a dependency differs from the kept one under \<open>Object.is\<close>. The
  dependencies are given as a list of \<open>dep\<close>, so the comparison is the equality of
  the lists. The callback is a closure over the values of the current render, separate
  from the dependencies: when an object is changed in place and passed again under the
  same reference, the cell is a hit and the kept value is returned.
\<close>

type_synonym ('d, 'v) memo = "('d \<times> 'v) option"

definition useMemo :: "(unit \<Rightarrow> 'v) \<Rightarrow> 'd \<Rightarrow> ('d, 'v) memo \<Rightarrow> 'v \<times> ('d, 'v) memo" where
  "useMemo calculateValue deps cell =
     (case cell of
        None \<Rightarrow> (let v = calculateValue () in (v, Some (deps, v)))
      | Some (prevDeps, prevValue) \<Rightarrow>
          if prevDeps = deps then (prevValue, cell)
          else (let v = calculateValue () in (v, Some (deps, v))))"

text \<open>
  The references of the objects a render is given: the two scales, the array
  \<open>series.data\<close>, the object \<open>series.highlightScope\<close> (when there is one) and the
  item of the interaction context (when it is not \<open>null\<close>).
\<close>

record prop_refs =
  ref_xScale :: nat
  ref_yScale :: nat
  ref_data :: nat
  ref_highlightScope :: nat
  ref_item :: nat

text \<open>
  What one render can reach: the props object the parent passes (the contents its
  objects have at this render, and their references), the interaction context of the
  chart, and the two memo cells of the component instance. \<open>w_next\<close> counts the objects
  the renders of the instance have built; a render builds two, the scope object of the
  first callback (when the callback runs) under the reference \<open>w_next\<close>, and the
  function \<open>getInteractionItemProps\<close> under \<open>w_next + 1\<close>. A render takes the world
  and returns its output with the world it leaves behind.
\<close>

record ('i, 'ev, 'eff) world =
  w_props :: "('ev, 'eff) ScatterProps"
  w_refs :: prop_refs
  w_interaction :: "'i InteractionContext"
  w_next :: nat
  memo_highlightScope :: "(dep list, nat \<times> HighlightScope) memo"
  memo_cleanData :: "(dep list, ('ev, 'eff) dataPoint list) memo"

text \<open>The dependency \<open>series.highlightScope\<close> of the first \<open>useMemo\<close> (line 46).\<close>

definition highlightScope_dep :: "('ev, 'eff) ScatterProps \<Rightarrow> prop_refs \<Rightarrow> dep" where
  "highlightScope_dep p refs =
     (case series_highlightScope (series p) of
        None \<Rightarrow> Undefined_dep
      | Some _ \<Rightarrow> Object_dep (ref_highlightScope refs))"

text \<open>
  Lines 44 to 47: the first \<open>useMemo\<close>. Its value is the scope object: the reference
  it was built under and its content.
\<close>

definition Scatter_highlightScope ::
  "('i, 'ev, 'eff) world \<Rightarrow> (nat \<times> HighlightScope) \<times> (dep list, nat \<times> HighlightScope) memo"
where
  "Scatter_highlightScope w =
     useMemo (\<lambda>_. (w_next w, highlightScope (series (w_props w))))
       [highlightScope_dep (w_props w) (w_refs w)]
       (memo_highlightScope w)"

text \<open>The content of the local \<open>highlightScope\<close> of a render.\<close>

definition usedScope :: "('i, 'ev, 'eff) world \<Rightarrow> HighlightScope" where
  "usedScope w = snd (fst (Scatter_highlightScope w))"

text \<open>
  Lines 42 to 100: the hooks of the component, up to the value of the local
  \<open>cleanData\<close>.
\<close>

definition Scatter_cleanData ::
  "('i, 'ev, 'eff) env \<Rightarrow> ('i, 'ev, 'eff) world \<Rightarrow>
   ('ev, 'eff) dataPoint list \<times> ('i, 'ev, 'eff) world"
where
  "Scatter_cleanData E w =
     (let srs = series (w_props w);
          xsc = xScale (w_props w);
          ysc = yScale (w_props w);
          (scope, cell1) = Scatter_highlightScope w;
          hs = snd scope;
          itm = item (w_interaction w);
          skipInteractionHandlers =
            js_or (useVoronoiInteraction (w_interaction w)) (series_disableHover srs);
          getInteractionItemProps = useInteractionItemProps E hs skipInteractionHandlers;
          (cd, cell2) =
            useMemo (\<lambda>_. cleanData E xsc ysc srs itm hs getInteractionItemProps)
              [Object_dep (ref_xScale (w_refs w)),
               Object_dep (ref_yScale (w_refs w)),
               Object_dep (ref_data (w_refs w)),
               Prim_dep (series_id srs),
               (case itm of None \<Rightarrow> Null_dep | Some _ \<Rightarrow> Object_dep (ref_item (w_refs w))),
               Object_dep (fst scope),
               Object_dep (w_next w + 1)]
              (memo_cleanData w)
      in (cd, w\<lparr>w_next := w_next w + 2, memo_highlightScope := cell1, memo_cleanData := cell2\<rparr>))"

text \<open>
  Lines 105 to 124: the circle of one entry of \<open>cleanData\<close>. The explicit attributes
  come first and \<open>{...dataPoint.interactionProps}\<close> is spread last, so an attribute of
  the interaction props replaces an explicit one of the same name.
\<close>

definition Scatter_circle ::
  "('i, 'ev, 'eff) env \<Rightarrow> ('ev, 'eff) ScatterProps \<Rightarrow> ('ev, 'eff) dataPoint \<Rightarrow>
   ('ev, 'eff) circle"
where
  "Scatter_circle E p dp =
     \<lparr>key = dp_id dp,
      props =
        [''cx'' \<mapsto> Num (Fin 0),
         ''cy'' \<mapsto> Num (Fin 0),
         ''r'' \<mapsto> Num (Number_multiply E (if isHighlighted dp then Fin (12 / 10) else Fin 1)
                      (markerSize p)),
         ''transform'' \<mapsto>
            Str (''translate('' @ Number_toString E (dp_x dp) @ '', '' @
                 Number_toString E (dp_y dp) @ '')''),
         ''fill'' \<mapsto> Str (color p),
         ''opacity'' \<mapsto> Num (if isFaded dp then Fin (3 / 10) else Fin 1),
         ''onClick'' \<mapsto>
            (case onItemClick p of
               None \<Rightarrow> Undefined
             | Some callback \<Rightarrow>
                 Handler (\<lambda>event. callback event
                   \<lparr>item_type = ''scatter'', seriesId = series_id (series p),
                    dataIndex = dp_dataIndex dp\<rparr>)),
         ''cursor'' \<mapsto> Str (case onItemClick p of None \<Rightarrow> ''unset'' | Some _ \<Rightarrow> ''pointer'')]
        ++ interactionProps dp\<rparr>"

text \<open>Lines 41 to 128: one render of the component.\<close>

definition Scatter ::
  "('i, 'ev, 'eff) env \<Rightarrow> ('i, 'ev, 'eff) world \<Rightarrow>
   ('ev, 'eff) group \<times> ('i, 'ev, 'eff) world"
where
  "Scatter E w =
     (let (cd, w') = Scatter_cleanData E w
      in (G (map (Scatter_circle E (w_props w)) cd), w'))"

text \<open>
  The worlds a component instance is rendered in. The first render finds both cells
  empty. Between two renders the parent may pass any props and the provider any
  context, under any references: an object may come back under the reference it had
  with another content (changed in place), or with the same content under a new
  reference. The cells and the count of built objects are the ones the previous render
  left.
\<close>

inductive reachable :: "('i, 'ev, 'eff) env \<Rightarrow> ('i, 'ev, 'eff) world \<Rightarrow> bool"
  for E :: "('i, 'ev, 'eff) env"
where
  mount:
    "reachable E \<lparr>w_props = p, w_refs = r, w_interaction = c, w_next = n,
                  memo_highlightScope = None, memo_cleanData = None\<rparr>"
| rerender:
    "reachable E w \<Longrightarrow>
     reachable E ((snd (Scatter E w))\<lparr>w_props := p, w_refs := r, w_interaction := c\<rparr>)"

text \<open>
  The worlds of an instance whose parent never changes \<open>series.highlightScope\<close> in
  place: when a render is given the scope under the reference of the render before, or
  no scope as before, the scope has the content it had in the render before.
\<close>

inductive unmutated :: "('i, 'ev, 'eff) env \<Rightarrow> ('i, 'ev, 'eff) world \<Rightarrow> bool"
  for E :: "('i, 'ev, 'eff) env"
where
  mount:
    "unmutated E \<lparr>w_props = p, w_refs = r, w_interaction = c, w_next = n,
                  memo_highlightScope = None, memo_cleanData = None\<rparr>"
| rerender:
    "unmutated E w \<Longrightarrow>
     (highlightScope_dep p r = highlightScope_dep (w_props w) (w_refs w) \<longrightarrow>
      series_highlightScope (series p) = series_highlightScope (series (w_props w))) \<Longrightarrow>
     unmutated E ((snd (Scatter E w))\<lparr>w_props := p, w_refs := r, w_interaction := c\<rparr>)"

text \<open>
  The records the loop computes from a render's scales, series and interaction context
  under a given highlight scope, and the spec's side of the memoization claim: the
  records freshly computed from the render's scale functions, series and interaction
  context, with no cell involved.
\<close>

definition dataWith ::
  "('i, 'ev, 'eff) env \<Rightarrow> ('ev, 'eff) ScatterProps \<Rightarrow> 'i InteractionContext \<Rightarrow>
   HighlightScope \<Rightarrow> ('ev, 'eff) dataPoint list"
where
  "dataWith E p c hs =
     cleanData E (xScale p) (yScale p) (series p) (item c) hs
       (useInteractionItemProps E hs
          (js_or (useVoronoiInteraction c) (series_disableHover (series p))))"

definition freshData ::
  "('i, 'ev, 'eff) env \<Rightarrow> ('ev, 'eff) ScatterProps \<Rightarrow> 'i InteractionContext \<Rightarrow>
   ('ev, 'eff) dataPoint list"
where
  "freshData E p c = dataWith E p c (highlightScope (series p))"

text \<open>The identifier the loop builds for the point at index \<open>i\<close> (line 83).\<close>

definition pointCtx :: "DefaultizedScatterSeriesType \<Rightarrow> nat \<Rightarrow> ScatterItemIdentifier" where
  "pointCtx srs i = \<lparr>item_type = ''scatter'', seriesId = series_id srs, dataIndex = i\<rparr>"

text \<open>
  The condition of the range claim on one point, in the claim's words: the mapped
  position lies between the least and the greatest value of each scale's range, the
  bounds included.
\<close>

definition inVisibleRange ::
  "('i, 'ev, 'eff) env \<Rightarrow> D3Scale \<Rightarrow> D3Scale \<Rightarrow> ScatterValueType \<Rightarrow> bool"
where
  "inVisibleRange E xsc ysc pt =
     (let x = getValueToPositionMapper E xsc (pt_x pt);
          y = getValueToPositionMapper E ysc (pt_y pt)
      in js_le (Math_min (scale_range xsc)) x \<and> js_le x (Math_max (scale_range xsc)) \<and>
         js_le (Math_min (scale_range ysc)) y \<and> js_le y (Math_max (scale_range ysc)))"

section \<open>Auxiliary notions of the proofs\<close>

text \<open>
  One iteration of the loop, for the mappers and bounds the loop is run with: the value
  of \<open>isInRange\<close> (line 81) and the entry pushed to \<open>temp\<close> (lines 86 to 95).
\<close>

definition isInRange ::
  "(jsnum \<Rightarrow> jsnum) \<Rightarrow> (jsnum \<Rightarrow> jsnum) \<Rightarrow> jsnum \<Rightarrow> jsnum \<Rightarrow> jsnum \<Rightarrow> jsnum \<Rightarrow>
   ScatterValueType \<Rightarrow> bool"
where
  "isInRange gx gy mnx mxx mny mxy pt =
     (js_ge (gx (pt_x pt)) mnx \<and> js_le (gx (pt_x pt)) mxx \<and>
      js_ge (gy (pt_y pt)) mny \<and> js_le (gy (pt_y pt)) mxy)"

definition loop_entry ::
  "('i, 'ev, 'eff) env \<Rightarrow> (jsnum \<Rightarrow> jsnum) \<Rightarrow> (jsnum \<Rightarrow> jsnum) \<Rightarrow> ident \<Rightarrow> 'i option \<Rightarrow>
   HighlightScope \<Rightarrow> (ScatterItemIdentifier \<Rightarrow> ('ev, 'eff) attrs) \<Rightarrow> nat \<Rightarrow>
   ScatterValueType \<Rightarrow> ('ev, 'eff) dataPoint"
where
  "loop_entry E gx gy sid itm hs gip i pt =
     \<lparr>dp_x = gx (pt_x pt), dp_y = gy (pt_y pt), dp_id = pt_id pt, dp_dataIndex = i,
      isHighlighted =
        getIsHighlighted E itm \<lparr>item_type = ''scatter'', seriesId = sid, dataIndex = i\<rparr> hs,
      isFaded =
        (\<not> getIsHighlighted E itm \<lparr>item_type = ''scatter'', seriesId = sid, dataIndex = i\<rparr> hs \<and>
         getIsFaded E itm \<lparr>item_type = ''scatter'', seriesId = sid, dataIndex = i\<rparr> hs),
      interactionProps = gip \<lparr>item_type = ''scatter'', seriesId = sid, dataIndex = i\<rparr>\<rparr>"

text \<open>
  Two invariants of the memo cells. The function object among the dependencies the
  second cell keeps was built by an earlier render, so its reference is below the
  count of built objects. In an instance whose scope is never changed in place, the
  first cell holds the merge of the scope of every render that finds it a hit.
\<close>

definition cleanData_cell_old :: "('i, 'ev, 'eff) world \<Rightarrow> bool" where
  "cleanData_cell_old w =
     (\<forall>deps v. memo_cleanData w = Some (deps, v) \<longrightarrow>
        (\<exists>g. g < w_next w \<and> deps \<noteq> [] \<and> last deps = Object_dep g))"

definition scope_cell_fresh :: "('i, 'ev, 'eff) world \<Rightarrow> bool" where
  "scope_cell_fresh w =
     (\<forall>scope. memo_highlightScope w =
                Some ([highlightScope_dep (w_props w) (w_refs w)], scope) \<longrightarrow>
        snd scope = highlightScope (series (w_props w)))"

section \<open>A chart to run the component on\<close>

text \<open>
  Three points on linear scales with the pixel ranges 0 to 100 (the vertical one
  reversed); the second point maps to x = 150, outside the range. The pointer is on
  the first point: that point is highlighted, and \<open>getIsFaded\<close> holds of every point
  while something is pointed at, unless the scope says \<open>faded: 'none'\<close>. The item of
  the context is \<open>null\<close> or a point identifier, an event is a number, and the click
  callback returns the identifier it is called with.
\<close>

definition ex_env :: "(ScatterItemIdentifier, nat, ScatterItemIdentifier) env" where
  "ex_env =
     \<lparr>getValueToPositionMapper = scale_fn,
      getIsHighlighted =
        (\<lambda>itm ctx hs. hs ''highlighted'' = Some (ScopeString ''item'') \<and> itm = Some ctx),
      getIsFaded = (\<lambda>itm ctx hs. hs ''faded'' \<noteq> Some (ScopeString ''none'') \<and> itm \<noteq> None),
      useInteractionItemProps =
        (\<lambda>hs skip ctx. if skip = Some True then Map.empty
                        else [''onMouseEnter'' \<mapsto> Handler (\<lambda>event. ctx)]),
      Number_toString =
        (\<lambda>n. if n = Fin 10 then ''10'' else if n = Fin 30 then ''30''
              else if n = Fin 40 then ''40'' else ''NaN''),
      Number_multiply = (\<lambda>a b. case (a, b) of (Fin r, Fin s) \<Rightarrow> Fin (r * s) | _ \<Rightarrow> NaN)\<rparr>"

definition ex_series :: DefaultizedScatterSeriesType where
  "ex_series =
     \<lparr>series_id = StrId ''s1'',
      series_data =
        [\<lparr>pt_x = Fin 10, pt_y = Fin 10, pt_id = NumId (Fin 1)\<rparr>,
         \<lparr>pt_x = Fin 150, pt_y = Fin 20, pt_id = NumId (Fin 2)\<rparr>,
         \<lparr>pt_x = Fin 30, pt_y = Fin 40, pt_id = NumId (Fin 3)\<rparr>],
      series_highlightScope = Some [''faded'' \<mapsto> ScopeString ''series''],
      series_disableHover = None\<rparr>"

definition ex_props :: "(nat, ScatterItemIdentifier) ScatterProps" where
  "ex_props =
     \<lparr>series = ex_series,
      xScale = \<lparr>scale_fn = (\<lambda>v. v), scale_range = [Fin 0, Fin 100]\<rparr>,
      yScale = \<lparr>scale_fn = (\<lambda>v. v), scale_range = [Fin 100, Fin 0]\<rparr>,
      markerSize = Fin 4,
      color = ''red'',
      onItemClick = Some (\<lambda>event identifier. identifier)\<rparr>"

definition ex_refs :: prop_refs where
  "ex_refs = \<lparr>ref_xScale = 1, ref_yScale = 2, ref_data = 3, ref_highlightScope = 4, ref_item = 5\<rparr>"

definition ex_context :: "ScatterItemIdentifier InteractionContext" where
  "ex_context =
     \<lparr>item = Some \<lparr>item_type = ''scatter'', seriesId = StrId ''s1'', dataIndex = 0\<rparr>,
      useVoronoiInteraction = False\<rparr>"

text \<open>
  The first render, and a second one with the same objects, another size and colour
  and no callback.
\<close>

definition ex_world :: "(ScatterItemIdentifier, nat, ScatterItemIdentifier) world" where
  "ex_world = \<lparr>w_props = ex_props, w_refs = ex_refs, w_interaction = ex_context, w_next = 0,
               memo_highlightScope = None, memo_cleanData = None\<rparr>"

definition ex_world2 :: "(ScatterItemIdentifier, nat, ScatterItemIdentifier) world" where
  "ex_world2 =
     (snd (Scatter ex_env ex_world))
       \<lparr>w_props := ex_props\<lparr>markerSize := Fin 6, color := ''blue'', onItemClick := None\<rparr>,
        w_refs := ex_refs,
        w_interaction := ex_context\<rparr>"

text \<open>
  The series after its scope object was changed in place to \<open>{ faded: 'none' }\<close>: the
  props of a second render under the references of the first, and a first render of
  another instance on the same props.
\<close>

definition ex_props_changed :: "(nat, ScatterItemIdentifier) ScatterProps" where
  "ex_props_changed =
     ex_props\<lparr>series :=
       ex_series\<lparr>series_highlightScope := Some [''faded'' \<mapsto> ScopeString ''none'']\<rparr>\<rparr>"

definition ex_world_changed :: "(ScatterItemIdentifier, nat, ScatterItemIdentifier) world" where
  "ex_world_changed =
     (snd (Scatter ex_env ex_world))
       \<lparr>w_props := ex_props_changed, w_refs := ex_refs, w_interaction := ex_context\<rparr>"

definition ex_world_mounted :: "(ScatterItemIdentifier, nat, ScatterItemIdentifier) world" where
  "ex_world_mounted =
     \<lparr>w_props = ex_props_changed, w_refs = ex_refs, w_interaction = ex_context, w_next = 0,
      memo_highlightScope = None, memo_cleanData = None\<rparr>"

text \<open>A series whose scope has \<open>highlighted\<close> present with the value \<open>undefined\<close>.\<close>

definition ex_series_undefined :: DefaultizedScatterSeriesType where
  "ex_series_undefined =
     ex_series\<lparr>series_highlightScope := Some [''highlighted'' \<mapsto> ScopeUndefined]\<rparr>"

definition ex_world_undefined :: "(ScatterItemIdentifier, nat, ScatterItemIdentifier) world" where
  "ex_world_undefined =
     \<lparr>w_props = ex_props\<lparr>series := ex_series_undefined\<rparr>, w_refs = ex_refs,
      w_interaction = ex_context, w_next = 0,
      memo_highlightScope = None, memo_cleanData = None\<rparr>"

section \<open>Properties\<close>

subsection \<open>The loop as a filter\<close>

lemma cleanData_loop_eq:
  "cleanData_loop E gx gy mnx mxx mny mxy sid itm hs gip i pts temp =
     temp @ map (\<lambda>(k, pt). loop_entry E gx gy sid itm hs gip k pt)
              (filter (\<lambda>(k, pt). isInRange gx gy mnx mxx mny mxy pt)
                 (zip [i..<i + length pts] pts))"
proof (induction pts arbitrary: i temp)
  case Nil
  show ?case by simp
next
  case (Cons pt pts)
  have up: "[i..<i + length (pt # pts)] = i # [Suc i..<Suc i + length pts]"
    by (simp add: upt_rec)
  show ?case
    unfolding up
    by (simp add: Cons.IH Let_def isInRange_def loop_entry_def)
qed

lemma zip_upt_nth: "zip [0..<length xs] xs = map (\<lambda>k. (k, xs ! k)) [0..<length xs]"
  by (rule nth_equalityI) simp_all

lemma cleanData_eq:
  "cleanData E xsc ysc srs itm hs gip =
     map (\<lambda>k. loop_entry E (getValueToPositionMapper E xsc) (getValueToPositionMapper E ysc)
                 (series_id srs) itm hs gip k (series_data srs ! k))
       (filter (\<lambda>k. isInRange (getValueToPositionMapper E xsc) (getValueToPositionMapper E ysc)
                      (Math_min (scale_range xsc)) (Math_max (scale_range xsc))
                      (Math_min (scale_range ysc)) (Math_max (scale_range ysc))
                      (series_data srs ! k))
          [0..<length (series_data srs)])"
  using zip_upt_nth [of "series_data srs"]
  by (simp add: cleanData_def Let_def cleanData_loop_eq filter_map comp_def)

subsection \<open>The records under a given scope, point by point\<close>

lemma isInRange_inVisibleRange:
  "isInRange (getValueToPositionMapper E xsc) (getValueToPositionMapper E ysc)
     (Math_min (scale_range xsc)) (Math_max (scale_range xsc))
     (Math_min (scale_range ysc)) (Math_max (scale_range ysc)) pt
   = inVisibleRange E xsc ysc pt"
  by (simp add: isInRange_def inVisibleRange_def js_ge_def Let_def)

lemma dataWith_eq:
  "dataWith E p c hs =
     map (\<lambda>k. loop_entry E (getValueToPositionMapper E (xScale p))
                 (getValueToPositionMapper E (yScale p)) (series_id (series p)) (item c) hs
                 (useInteractionItemProps E hs
                    (js_or (useVoronoiInteraction c) (series_disableHover (series p))))
                 k (series_data (series p) ! k))
       (filter (\<lambda>k. inVisibleRange E (xScale p) (yScale p) (series_data (series p) ! k))
          [0..<length (series_data (series p))])"
  by (simp add: dataWith_def cleanData_eq isInRange_inVisibleRange)

lemma dataWith_indices:
  "map dp_dataIndex (dataWith E p c hs) =
     filter (\<lambda>k. inVisibleRange E (xScale p) (yScale p) (series_data (series p) ! k))
       [0..<length (series_data (series p))]"
  by (simp add: dataWith_eq comp_def loop_entry_def)

lemma dataWith_entry:
  assumes "r \<in> set (dataWith E p c hs)"
  shows "dp_dataIndex r < length (series_data (series p))"
    and "inVisibleRange E (xScale p) (yScale p) (series_data (series p) ! dp_dataIndex r)"
    and "dp_x r = getValueToPositionMapper E (xScale p)
                    (pt_x (series_data (series p) ! dp_dataIndex r))"
    and "dp_y r = getValueToPositionMapper E (yScale p)
                    (pt_y (series_data (series p) ! dp_dataIndex r))"
    and "dp_id r = pt_id (series_data (series p) ! dp_dataIndex r)"
    and "isHighlighted r =
           getIsHighlighted E (item c) (pointCtx (series p) (dp_dataIndex r)) hs"
    and "isFaded r =
           (\<not> isHighlighted r \<and>
            getIsFaded E (item c) (pointCtx (series p) (dp_dataIndex r)) hs)"
    and "interactionProps r =
           useInteractionItemProps E hs
             (js_or (useVoronoiInteraction c) (series_disableHover (series p)))
             (pointCtx (series p) (dp_dataIndex r))"
  using assms by (auto simp: dataWith_eq loop_entry_def pointCtx_def)

lemma filter_indices:
  "map ((!) xs) (filter (\<lambda>k. P (xs ! k)) [0..<length xs]) = filter P xs"
proof -
  have "filter P (map ((!) xs) [0..<length xs]) =
          map ((!) xs) (filter (\<lambda>k. P (xs ! k)) [0..<length xs])"
    by (simp add: filter_map comp_def)
  then show ?thesis by (simp add: map_nth)
qed

lemma dataWith_points:
  "map (\<lambda>r. series_data (series p) ! dp_dataIndex r) (dataWith E p c hs) =
     filter (inVisibleRange E (xScale p) (yScale p)) (series_data (series p))"
proof -
  have "map (\<lambda>r. series_data (series p) ! dp_dataIndex r) (dataWith E p c hs) =
          map ((!) (series_data (series p))) (map dp_dataIndex (dataWith E p c hs))"
    by (simp add: comp_def)
  then show ?thesis
    by (simp only: dataWith_indices filter_indices)
qed

lemma dataWith_length:
  "length (dataWith E p c hs) =
     length (filter (inVisibleRange E (xScale p) (yScale p)) (series_data (series p)))"
  using arg_cong [OF dataWith_points [of p E c hs], of length] by simp

subsection \<open>The range test on finite numbers\<close>

lemma Min_insert_min:
  "Min (insert (min a r) (set rs)) = Min (insert (a::real) (insert r (set rs)))"
proof (cases "set rs = {}")
  case True
  then show ?thesis by simp
next
  case False
  then show ?thesis by (simp add: min.assoc)
qed

lemma Max_insert_max:
  "Max (insert (max a r) (set rs)) = Max (insert (a::real) (insert r (set rs)))"
proof (cases "set rs = {}")
  case True
  then show ?thesis by simp
next
  case False
  then show ?thesis by (simp add: max.assoc)
qed

lemma foldl_min_Fin:
  "foldl (\<lambda>lowest number.
            if lowest = NaN \<or> number = NaN then NaN
            else if js_lt number lowest then number else lowest)
     (Fin a) (map Fin rs) = Fin (Min (insert a (set rs)))"
proof (induction rs arbitrary: a)
  case Nil
  show ?case by simp
next
  case (Cons r rs)
  have step: "(if js_lt (Fin r) (Fin a) then Fin r else Fin a) = Fin (min a r)"
    by (simp add: js_lt_def min_def)
  have "Min (insert (min a r) (set rs)) = Min (insert a (insert r (set rs)))"
    by (rule Min_insert_min)
  then show ?case
    by (simp add: Cons.IH step del: Min_insert)
qed

lemma foldl_max_Fin:
  "foldl (\<lambda>highest number.
            if highest = NaN \<or> number = NaN then NaN
            else if js_lt highest number then number else highest)
     (Fin a) (map Fin rs) = Fin (Max (insert a (set rs)))"
proof (induction rs arbitrary: a)
  case Nil
  show ?case by simp
next
  case (Cons r rs)
  have step: "(if js_lt (Fin a) (Fin r) then Fin r else Fin a) = Fin (max a r)"
    by (simp add: js_lt_def max_def)
  have "Max (insert (max a r) (set rs)) = Max (insert a (insert r (set rs)))"
    by (rule Max_insert_max)
  then show ?case
    by (simp add: Cons.IH step del: Max_insert)
qed

lemma Math_min_Fin: "rs \<noteq> [] \<Longrightarrow> Math_min (map Fin rs) = Fin (Min (set rs))"
  by (cases rs) (simp_all add: Math_min_def js_lt_def foldl_min_Fin)

lemma Math_max_Fin: "rs \<noteq> [] \<Longrightarrow> Math_max (map Fin rs) = Fin (Max (set rs))"
  by (cases rs) (simp_all add: Math_max_def js_lt_def foldl_max_Fin)

lemma Math_min_empty: "Math_min [] = PosInf" and Math_max_empty: "Math_max [] = NegInf"
  by (simp_all add: Math_min_def Math_max_def)

lemma inVisibleRange_finite:
  assumes "scale_range xsc = map Fin xr" and "xr \<noteq> []"
    and "scale_range ysc = map Fin yr" and "yr \<noteq> []"
    and "getValueToPositionMapper E xsc (pt_x pt) = Fin x"
    and "getValueToPositionMapper E ysc (pt_y pt) = Fin y"
  shows "inVisibleRange E xsc ysc pt \<longleftrightarrow>
         Min (set xr) \<le> x \<and> x \<le> Max (set xr) \<and> Min (set yr) \<le> y \<and> y \<le> Max (set yr)"
  using assms by (simp add: inVisibleRange_def Math_min_Fin Math_max_Fin)

lemma inVisibleRange_NaN:
  "getValueToPositionMapper E xsc (pt_x pt) = NaN \<or>
   getValueToPositionMapper E ysc (pt_y pt) = NaN \<Longrightarrow> \<not> inVisibleRange E xsc ysc pt"
  by (auto simp: inVisibleRange_def Let_def)

lemma inVisibleRange_empty_range:
  "scale_range xsc = [] \<or> scale_range ysc = [] \<Longrightarrow> \<not> inVisibleRange E xsc ysc pt"
proof -
  have "\<not> (js_le PosInf v \<and> js_le v NegInf)" for v
    by (cases v) simp_all
  then show "scale_range xsc = [] \<or> scale_range ysc = [] \<Longrightarrow> \<not> inVisibleRange E xsc ysc pt"
    by (auto simp: inVisibleRange_def Let_def Math_min_empty Math_max_empty)
qed

subsection \<open>The memo cells\<close>

lemma useMemo_miss:
  assumes "\<And>prevDeps v. cell = Some (prevDeps, v) \<Longrightarrow> prevDeps \<noteq> deps"
  shows "useMemo calc deps cell = (calc (), Some (deps, calc ()))"
  using assms by (auto simp: useMemo_def Let_def split: option.splits)

lemma useMemo_cell:
  "snd (useMemo calc deps cell) = Some (deps, fst (useMemo calc deps cell))"
  by (auto simp: useMemo_def Let_def split: option.splits)

lemma snd_Scatter: "snd (Scatter E w) = snd (Scatter_cleanData E w)"
  by (simp add: Scatter_def split_beta)

lemma Scatter_output:
  "fst (Scatter E w) = G (map (Scatter_circle E (w_props w)) (fst (Scatter_cleanData E w)))"
  by (simp add: Scatter_def split_beta)

lemma Scatter_cleanData_frame:
  "w_props (snd (Scatter_cleanData E w)) = w_props w"
  "w_refs (snd (Scatter_cleanData E w)) = w_refs w"
  "w_interaction (snd (Scatter_cleanData E w)) = w_interaction w"
  "w_next (snd (Scatter_cleanData E w)) = w_next w + 2"
  by (simp_all add: Scatter_cleanData_def Let_def split_beta)

lemma Scatter_cleanData_cells:
  "memo_highlightScope (snd (Scatter_cleanData E w)) =
     Some ([highlightScope_dep (w_props w) (w_refs w)], fst (Scatter_highlightScope w))"
  "\<exists>deps v. memo_cleanData (snd (Scatter_cleanData E w)) =
              Some (deps @ [Object_dep (w_next w + 1)], v)"
proof -
  show "memo_highlightScope (snd (Scatter_cleanData E w)) =
          Some ([highlightScope_dep (w_props w) (w_refs w)], fst (Scatter_highlightScope w))"
    by (simp add: Scatter_cleanData_def Let_def split_beta)
       (simp add: Scatter_highlightScope_def useMemo_cell)
  show "\<exists>deps v. memo_cleanData (snd (Scatter_cleanData E w)) =
                  Some (deps @ [Object_dep (w_next w + 1)], v)"
    by (simp add: Scatter_cleanData_def Let_def split_beta useMemo_cell)
qed

text \<open>The second cell never hits: the function among its dependencies is new.\<close>

lemma cleanData_cell_old_mount:
  "cleanData_cell_old \<lparr>w_props = p, w_refs = r, w_interaction = c, w_next = n,
                       memo_highlightScope = None, memo_cleanData = None\<rparr>"
  by (simp add: cleanData_cell_old_def)

lemma cleanData_cell_old_render:
  "cleanData_cell_old ((snd (Scatter E w))\<lparr>w_props := p, w_refs := r, w_interaction := c\<rparr>)"
proof -
  obtain deps v where
    "memo_cleanData (snd (Scatter_cleanData E w)) = Some (deps @ [Object_dep (w_next w + 1)], v)"
    using Scatter_cleanData_cells(2) by blast
  then show ?thesis
    by (simp add: cleanData_cell_old_def snd_Scatter Scatter_cleanData_frame)
qed

lemma reachable_cell_old: "reachable E w \<Longrightarrow> cleanData_cell_old w"
  by (induction rule: reachable.induct)
     (simp_all add: cleanData_cell_old_mount cleanData_cell_old_render)

lemma reachable_used:
  assumes "reachable E w"
  shows "fst (Scatter_cleanData E w) = dataWith E (w_props w) (w_interaction w) (usedScope w)"
proof -
  have old: "cleanData_cell_old w"
    using assms by (rule reachable_cell_old)
  have miss: "prevDeps \<noteq> deps @ [Object_dep (w_next w + 1)]"
    if "memo_cleanData w = Some (prevDeps, v)" for prevDeps v deps
  proof
    assume eq: "prevDeps = deps @ [Object_dep (w_next w + 1)]"
    from old that obtain g where "g < w_next w" and "last prevDeps = Object_dep g"
      unfolding cleanData_cell_old_def by blast
    with eq show False by simp
  qed
  let ?deps = "[Object_dep (ref_xScale (w_refs w)), Object_dep (ref_yScale (w_refs w)),
                Object_dep (ref_data (w_refs w)), Prim_dep (series_id (series (w_props w))),
                (case item (w_interaction w) of None \<Rightarrow> Null_dep
                 | Some _ \<Rightarrow> Object_dep (ref_item (w_refs w))),
                Object_dep (fst (fst (Scatter_highlightScope w)))]"
  have "fst (useMemo calc (?deps @ [Object_dep (w_next w + 1)]) (memo_cleanData w)) = calc ()"
    for calc :: "unit \<Rightarrow> ('b, 'c) dataPoint list"
    using miss [of _ _ ?deps] by (subst useMemo_miss) auto
  then show ?thesis
    by (simp add: Scatter_cleanData_def Let_def split_beta dataWith_def usedScope_def)
qed

text \<open>The first cell is fresh where the scope is never changed in place.\<close>

lemma unmutated_reachable: "unmutated E w \<Longrightarrow> reachable E w"
  by (induction rule: unmutated.induct) (auto intro: reachable.intros)

lemma usedScope_fresh:
  assumes "scope_cell_fresh w"
  shows "usedScope w = highlightScope (series (w_props w))"
proof -
  have "fst (Scatter_highlightScope w) = (w_next w, highlightScope (series (w_props w))) \<or>
        snd (fst (Scatter_highlightScope w)) = highlightScope (series (w_props w))"
    using assms
    by (auto simp: Scatter_highlightScope_def useMemo_def scope_cell_fresh_def Let_def
        split: option.splits)
  then show ?thesis
    by (auto simp: usedScope_def)
qed

lemma usedScope_mount:
  "memo_highlightScope w = None \<Longrightarrow> usedScope w = highlightScope (series (w_props w))"
  by (simp add: usedScope_def Scatter_highlightScope_def useMemo_def Let_def)

lemma unmutated_scope_cell: "unmutated E w \<Longrightarrow> scope_cell_fresh w"
proof (induction rule: unmutated.induct)
  case mount
  show ?case by (simp add: scope_cell_fresh_def)
next
  case (rerender w p r c)
  have used: "snd (fst (Scatter_highlightScope w)) = highlightScope (series (w_props w))"
    using usedScope_fresh [OF rerender.IH] by (simp add: usedScope_def)
  show ?case
    unfolding scope_cell_fresh_def
    using rerender.hyps(2) used
    by (auto simp: snd_Scatter Scatter_cleanData_cells(1) highlightScope_def)
qed

lemma unmutated_used:
  "unmutated E w \<Longrightarrow> fst (Scatter_cleanData E w) = freshData E (w_props w) (w_interaction w)"
  by (simp add: reachable_used unmutated_reachable usedScope_fresh unmutated_scope_cell
      freshData_def)

subsection \<open>The circle\<close>

lemma Scatter_circle_key: "key (Scatter_circle E p dp) = dp_id dp"
  by (simp add: Scatter_circle_def)

lemma Scatter_circle_transform:
  "interactionProps dp ''transform'' = None \<Longrightarrow>
   props (Scatter_circle E p dp) ''transform'' =
     Some (Str (''translate('' @ Number_toString E (dp_x dp) @ '', '' @
                Number_toString E (dp_y dp) @ '')''))"
  by (simp add: Scatter_circle_def map_add_def)

lemma Scatter_circle_fill:
  "interactionProps dp ''fill'' = None \<Longrightarrow>
   props (Scatter_circle E p dp) ''fill'' = Some (Str (color p))"
  by (simp add: Scatter_circle_def map_add_def)

lemma Scatter_circle_onClick:
  "interactionProps dp ''onClick'' = None \<Longrightarrow>
   props (Scatter_circle E p dp) ''onClick'' =
     Some (case onItemClick p of
             None \<Rightarrow> Undefined
           | Some callback \<Rightarrow>
               Handler (\<lambda>event. callback event (pointCtx (series p) (dp_dataIndex dp))))"
  by (simp add: Scatter_circle_def map_add_def pointCtx_def split: option.splits)

lemma Scatter_circle_cursor:
  "interactionProps dp ''cursor'' = None \<Longrightarrow>
   props (Scatter_circle E p dp) ''cursor'' =
     Some (Str (if onItemClick p = None then ''unset'' else ''pointer''))"
  by (simp add: Scatter_circle_def map_add_def split: option.splits)

subsection \<open>The example chart, evaluated\<close>

lemma reachable_ex_world: "reachable ex_env ex_world"
  unfolding ex_world_def by (rule reachable.mount)

lemma reachable_ex_world_changed: "reachable ex_env ex_world_changed"
  unfolding ex_world_changed_def by (rule reachable.rerender) (rule reachable_ex_world)

lemma reachable_ex_world_mounted: "reachable ex_env ex_world_mounted"
  unfolding ex_world_mounted_def by (rule reachable.mount)

lemma unmutated_ex_world: "unmutated ex_env ex_world"
  unfolding ex_world_def by (rule unmutated.mount)

lemma unmutated_ex_world_undefined: "unmutated ex_env ex_world_undefined"
  unfolding ex_world_undefined_def by (rule unmutated.mount)

lemma ex_world_simps:
  "w_props ex_world = ex_props" "w_interaction ex_world = ex_context"
  "w_refs ex_world = ex_refs"
  by (simp_all add: ex_world_def)

lemma unmutated_ex_world2: "unmutated ex_env ex_world2"
  unfolding ex_world2_def
  by (rule unmutated.rerender) (simp_all add: unmutated_ex_world ex_world_simps ex_props_def)

lemma ex_ranges:
  "Math_min [Fin 0, Fin 100] = Fin 0" "Math_max [Fin 0, Fin 100] = Fin 100"
  "Math_min [Fin 100, Fin 0] = Fin 0" "Math_max [Fin 100, Fin 0] = Fin 100"
  by (simp_all add: Math_min_def Math_max_def js_lt_def)

lemma ex_visible:
  "inVisibleRange ex_env (xScale ex_props) (yScale ex_props) (series_data ex_series ! 0)"
  "\<not> inVisibleRange ex_env (xScale ex_props) (yScale ex_props) (series_data ex_series ! 1)"
  "inVisibleRange ex_env (xScale ex_props) (yScale ex_props) (series_data ex_series ! 2)"
  by (simp_all add: inVisibleRange_def ex_env_def ex_props_def ex_series_def ex_ranges)

lemma ex_toString:
  "Number_toString ex_env (Fin 30) = ''30''" "Number_toString ex_env (Fin 40) = ''40''"
  by (simp_all add: ex_env_def)

text \<open>
  The records of the example under a scope \<open>hs\<close>, while the pointer is on the first
  point.
\<close>

lemma ex_dataWith:
  assumes "xScale p = xScale ex_props" and "yScale p = yScale ex_props"
    and "series_data (series p) = series_data ex_series"
    and "series_id (series p) = StrId ''s1''"
    and "series_disableHover (series p) = None"
  shows "dataWith ex_env p ex_context hs =
     [\<lparr>dp_x = Fin 10, dp_y = Fin 10, dp_id = NumId (Fin 1), dp_dataIndex = 0,
       isHighlighted = (hs ''highlighted'' = Some (ScopeString ''item'')),
       isFaded = (hs ''highlighted'' \<noteq> Some (ScopeString ''item'') \<and>
                  hs ''faded'' \<noteq> Some (ScopeString ''none'')),
       interactionProps =
         [''onMouseEnter'' \<mapsto>
            Handler (\<lambda>event. \<lparr>item_type = ''scatter'', seriesId = StrId ''s1'', dataIndex = 0\<rparr>)]\<rparr>,
      \<lparr>dp_x = Fin 30, dp_y = Fin 40, dp_id = NumId (Fin 3), dp_dataIndex = 2,
       isHighlighted = False, isFaded = (hs ''faded'' \<noteq> Some (ScopeString ''none'')),
       interactionProps =
         [''onMouseEnter'' \<mapsto>
            Handler (\<lambda>event. \<lparr>item_type = ''scatter'', seriesId = StrId ''s1'', dataIndex = 2\<rparr>)]\<rparr>]"
  using assms
  by (simp add: dataWith_def cleanData_def ex_env_def ex_props_def ex_context_def ex_series_def
      Math_min_def Math_max_def js_lt_def js_ge_def js_or_def Let_def numeral_2_eq_2)

lemma ex_scope:
  "highlightScope ex_series ''highlighted'' = Some (ScopeString ''item'')"
  "highlightScope ex_series ''faded'' = Some (ScopeString ''series'')"
  by (simp_all add: highlightScope_def ex_series_def)

lemma ex_shape:
  "xScale ex_props = xScale ex_props" "yScale ex_props = yScale ex_props"
  "series_data (series ex_props) = series_data ex_series"
  "series_id (series ex_props) = StrId ''s1''"
  "series_disableHover (series ex_props) = None"
  by (simp_all add: ex_props_def ex_series_def)

lemma ex_shape_changed:
  "xScale ex_props_changed = xScale ex_props" "yScale ex_props_changed = yScale ex_props"
  "series_data (series ex_props_changed) = series_data ex_series"
  "series_id (series ex_props_changed) = StrId ''s1''"
  "series_disableHover (series ex_props_changed) = None"
  by (simp_all add: ex_props_changed_def ex_props_def ex_series_def)

lemma ex_shape_undefined:
  "xScale (w_props ex_world_undefined) = xScale ex_props"
  "yScale (w_props ex_world_undefined) = yScale ex_props"
  "series_data (series (w_props ex_world_undefined)) = series_data ex_series"
  "series_id (series (w_props ex_world_undefined)) = StrId ''s1''"
  "series_disableHover (series (w_props ex_world_undefined)) = None"
  "series (w_props ex_world_undefined) = ex_series_undefined"
  "w_interaction ex_world_undefined = ex_context"
  by (simp_all add: ex_world_undefined_def ex_series_undefined_def ex_props_def ex_series_def)

lemma ex_usedScope:
  "usedScope ex_world = highlightScope ex_series"
  by (simp add: usedScope_def Scatter_highlightScope_def useMemo_def Let_def ex_world_def
      ex_props_def)

lemma ex_cell:
  "memo_highlightScope (snd (Scatter ex_env ex_world)) =
     Some ([Object_dep 4], (0, highlightScope ex_series))"
  by (simp add: snd_Scatter Scatter_cleanData_cells(1))
     (simp add: Scatter_highlightScope_def useMemo_def Let_def highlightScope_dep_def
        ex_world_def ex_props_def ex_refs_def, simp add: ex_series_def)

lemma ex_records:
  "fst (Scatter_cleanData ex_env ex_world) =
     [\<lparr>dp_x = Fin 10, dp_y = Fin 10, dp_id = NumId (Fin 1), dp_dataIndex = 0,
       isHighlighted = True, isFaded = False,
       interactionProps =
         [''onMouseEnter'' \<mapsto>
            Handler (\<lambda>event. \<lparr>item_type = ''scatter'', seriesId = StrId ''s1'', dataIndex = 0\<rparr>)]\<rparr>,
      \<lparr>dp_x = Fin 30, dp_y = Fin 40, dp_id = NumId (Fin 3), dp_dataIndex = 2,
       isHighlighted = False, isFaded = True,
       interactionProps =
         [''onMouseEnter'' \<mapsto>
            Handler (\<lambda>event. \<lparr>item_type = ''scatter'', seriesId = StrId ''s1'', dataIndex = 2\<rparr>)]\<rparr>]"
  unfolding reachable_used [OF reachable_ex_world] ex_world_simps ex_usedScope
  by (simp add: ex_dataWith [OF ex_shape] ex_scope)

text \<open>The second render with the same scope object: the first cell is a hit.\<close>

lemma ex_world2_cell: "memo_highlightScope ex_world2 \<noteq> None"
  by (simp add: ex_world2_def ex_cell)

text \<open>
  The second render after the scope object was changed in place: the first cell is a
  hit and the render works with the scope of the first render, where a first render on
  the same props works with the changed one.
\<close>

lemma ex_world_changed_simps:
  "w_props ex_world_changed = ex_props_changed" "w_interaction ex_world_changed = ex_context"
  "w_refs ex_world_changed = ex_refs"
  "w_props ex_world_mounted = ex_props_changed" "w_interaction ex_world_mounted = ex_context"
  "w_refs ex_world_mounted = ex_refs"
  by (simp_all add: ex_world_changed_def ex_world_mounted_def)

lemma ex_scope_changed:
  "highlightScope (series ex_props_changed) ''highlighted'' = Some (ScopeString ''item'')"
  "highlightScope (series ex_props_changed) ''faded'' = Some (ScopeString ''none'')"
  by (simp_all add: highlightScope_def ex_props_changed_def)

lemma ex_usedScope_changed: "usedScope ex_world_changed = highlightScope ex_series"
  by (simp add: usedScope_def Scatter_highlightScope_def useMemo_def ex_world_changed_def ex_cell
      highlightScope_dep_def ex_props_changed_def ex_refs_def)

lemma ex_usedScope_mounted:
  "usedScope ex_world_mounted = highlightScope (series ex_props_changed)"
  by (simp add: usedScope_def Scatter_highlightScope_def useMemo_def Let_def ex_world_mounted_def)

lemma ex_faded_changed:
  "map isFaded (fst (Scatter_cleanData ex_env ex_world_changed)) = [False, True]"
  unfolding reachable_used [OF reachable_ex_world_changed] ex_world_changed_simps
    ex_usedScope_changed
  by (simp add: ex_dataWith [OF ex_shape_changed] ex_scope)

lemma ex_faded_mounted:
  "map isFaded (fst (Scatter_cleanData ex_env ex_world_mounted)) = [False, False]"
  unfolding reachable_used [OF reachable_ex_world_mounted] ex_world_changed_simps
    ex_usedScope_mounted
  by (simp add: ex_dataWith [OF ex_shape_changed] ex_scope_changed)

lemma ex_faded_fresh:
  "map isFaded (freshData ex_env ex_props_changed ex_context) = [False, False]"
  unfolding freshData_def
  by (simp add: ex_dataWith [OF ex_shape_changed] ex_scope_changed)

text \<open>The first render of the series whose scope has \<open>highlighted: undefined\<close>.\<close>

lemma ex_scope_undefined:
  "highlightScope ex_series_undefined ''highlighted'' = Some ScopeUndefined"
  "highlightScope ex_series_undefined ''faded'' = Some (ScopeString ''global'')"
  by (simp_all add: highlightScope_def ex_series_undefined_def)

lemma ex_usedScope_undefined:
  "usedScope ex_world_undefined = highlightScope ex_series_undefined"
  using usedScope_mount [of ex_world_undefined]
  by (simp add: ex_shape_undefined(6)) (simp add: ex_world_undefined_def)

lemma ex_highlighted_undefined:
  "map isHighlighted (fst (Scatter_cleanData ex_env ex_world_undefined)) = [False, False]"
  unfolding reachable_used [OF unmutated_reachable [OF unmutated_ex_world_undefined]]
    ex_usedScope_undefined ex_shape_undefined(7)
  by (simp add: ex_dataWith [OF ex_shape_undefined(1-5)] ex_scope_undefined)

section \<open>The claims\<close>

text \<open>
  C1. In every render, whatever the series, the scales and the interaction context, the
  point at index \<open>i\<close> of \<open>series.data\<close> has a record in the rendered data if and only
  if its mapped position \<open>(x, y)\<close> satisfies \<open>min(xScale.range()) <= x <=
  max(xScale.range())\<close> and \<open>min(yScale.range()) <= y <= max(yScale.range())\<close>, bounds
  included. A point outside is left out and nothing is raised for it: the render is a
  total function, as the source has no \<open>throw\<close> and reads \<open>series.data\<close> below its
  length only.
\<close>

theorem rendered_iff_in_range:
  assumes "reachable E w"
  shows "(\<exists>r \<in> set (fst (Scatter_cleanData E w)). dp_dataIndex r = i) \<longleftrightarrow>
         (i < length (series_data (series (w_props w))) \<and>
          inVisibleRange E (xScale (w_props w)) (yScale (w_props w))
            (series_data (series (w_props w)) ! i))"
proof -
  have "(\<exists>r \<in> set (fst (Scatter_cleanData E w)). dp_dataIndex r = i) \<longleftrightarrow>
        i \<in> set (map dp_dataIndex (dataWith E (w_props w) (w_interaction w) (usedScope w)))"
    using assms by (auto simp: reachable_used)
  then show ?thesis
    unfolding dataWith_indices by auto
qed

theorem rendered_iff_in_range_witness:
  "reachable ex_env ex_world \<and>
   (\<exists>r \<in> set (fst (Scatter_cleanData ex_env ex_world)). dp_dataIndex r = 2) \<and>
   \<not> (\<exists>r \<in> set (fst (Scatter_cleanData ex_env ex_world)). dp_dataIndex r = 1)"
  using rendered_iff_in_range [OF reachable_ex_world, of 2]
    rendered_iff_in_range [OF reachable_ex_world, of 1] ex_visible reachable_ex_world
  by (simp add: ex_world_def ex_props_def ex_series_def)

text \<open>
  C2. For every record of the rendered data, the pixel coordinates are what the
  value-to-position mappers of \<open>xScale\<close> and \<open>yScale\<close> return for the x and the y of
  the record's point, and the circle of the record carries the transform
  \<open>translate(x, y)\<close> written with exactly these coordinates. The transform is the
  explicit one unless the interaction props, which \<open>useInteractionItemProps\<close> supplies
  from outside this file and which are spread last, carry a \<open>transform\<close> of their own.
\<close>

theorem rendered_position:
  assumes "reachable E w" and "k < length (fst (Scatter_cleanData E w))"
  shows "let p = w_props w;
             r = fst (Scatter_cleanData E w) ! k;
             c = children (fst (Scatter E w)) ! k;
             pt = series_data (series p) ! dp_dataIndex r
         in dp_dataIndex r < length (series_data (series p)) \<and>
            dp_x r = getValueToPositionMapper E (xScale p) (pt_x pt) \<and>
            dp_y r = getValueToPositionMapper E (yScale p) (pt_y pt) \<and>
            (interactionProps r ''transform'' = None \<longrightarrow>
             props c ''transform'' =
               Some (Str (''translate('' @ Number_toString E (dp_x r) @ '', '' @
                          Number_toString E (dp_y r) @ '')'')))"
proof -
  let ?recs = "fst (Scatter_cleanData E w)"
  let ?r = "?recs ! k"
  have used: "?recs = dataWith E (w_props w) (w_interaction w) (usedScope w)"
    using assms(1) by (rule reachable_used)
  have "?r \<in> set (dataWith E (w_props w) (w_interaction w) (usedScope w))"
    using assms(2) used by (metis nth_mem)
  then have idx: "dp_dataIndex ?r < length (series_data (series (w_props w)))"
    and x: "dp_x ?r = getValueToPositionMapper E (xScale (w_props w))
                        (pt_x (series_data (series (w_props w)) ! dp_dataIndex ?r))"
    and y: "dp_y ?r = getValueToPositionMapper E (yScale (w_props w))
                        (pt_y (series_data (series (w_props w)) ! dp_dataIndex ?r))"
    by (rule dataWith_entry)+
  have c: "children (fst (Scatter E w)) ! k = Scatter_circle E (w_props w) ?r"
    using assms(2) by (simp add: Scatter_output)
  show ?thesis
    unfolding Let_def c using idx x y by (simp add: Scatter_circle_transform)
qed

theorem rendered_position_witness:
  "reachable ex_env ex_world \<and> 1 < length (fst (Scatter_cleanData ex_env ex_world)) \<and>
   dp_dataIndex (fst (Scatter_cleanData ex_env ex_world) ! 1) = 2 \<and>
   dp_x (fst (Scatter_cleanData ex_env ex_world) ! 1) = Fin 30 \<and>
   dp_y (fst (Scatter_cleanData ex_env ex_world) ! 1) = Fin 40 \<and>
   props (children (fst (Scatter ex_env ex_world)) ! 1) ''transform'' =
     Some (Str ''translate(30, 40)'')"
proof -
  have k: "1 < length (fst (Scatter_cleanData ex_env ex_world))"
    by (simp add: ex_records)
  show ?thesis
    using rendered_position [OF reachable_ex_world k] reachable_ex_world k
    by (simp add: Let_def Scatter_output ex_records ex_world_simps Scatter_circle_def map_add_def
        ex_toString ex_props_def ex_series_def)
qed

text \<open>
  C3, as stated: two renders that agree on the scales, the series and the interaction
  context compute the same records. It fails: the highlight scope is memoized on the
  reference of \<open>series.highlightScope\<close>, so a second render after the scope object was
  changed in place works with the scope of the first render, where a first render on
  the very same props, references and context works with the changed one.
\<close>

theorem records_deterministic_counterexample:
  "reachable ex_env ex_world_mounted \<and> reachable ex_env ex_world_changed \<and>
   w_props ex_world_mounted = w_props ex_world_changed \<and>
   w_refs ex_world_mounted = w_refs ex_world_changed \<and>
   w_interaction ex_world_mounted = w_interaction ex_world_changed \<and>
   map isFaded (fst (Scatter_cleanData ex_env ex_world_mounted)) = [False, False] \<and>
   map isFaded (fst (Scatter_cleanData ex_env ex_world_changed)) = [False, True] \<and>
   fst (Scatter_cleanData ex_env ex_world_mounted) \<noteq>
     fst (Scatter_cleanData ex_env ex_world_changed)"
proof -
  have "fst (Scatter_cleanData ex_env ex_world_mounted) \<noteq>
          fst (Scatter_cleanData ex_env ex_world_changed)"
    using ex_faded_mounted ex_faded_changed by auto
  then show ?thesis
    by (simp add: reachable_ex_world_mounted reachable_ex_world_changed ex_world_changed_simps
        ex_faded_mounted ex_faded_changed)
qed

text \<open>
  C3, amended. In instances whose \<open>series.highlightScope\<close> object is never changed in
  place between renders, the per-point records are determined by the scales, the
  series and the interaction context: two renders that agree on them compute the same
  sequence of records (position, highlighted flag, faded flag, interaction props),
  whatever the marker size, the colour, the click callback, the references and the
  memo cells left by earlier renders. The series is the whole descriptor: its data,
  id, highlight scope and hover switch.
\<close>

theorem records_deterministic_unmutated:
  assumes "unmutated E w1" and "unmutated E w2"
    and "xScale (w_props w1) = xScale (w_props w2)"
    and "yScale (w_props w1) = yScale (w_props w2)"
    and "series (w_props w1) = series (w_props w2)"
    and "w_interaction w1 = w_interaction w2"
  shows "fst (Scatter_cleanData E w1) = fst (Scatter_cleanData E w2)"
proof -
  have "freshData E (w_props w1) (w_interaction w1) = freshData E (w_props w2) (w_interaction w2)"
    using assms(3-6) by (simp add: freshData_def dataWith_def)
  then show ?thesis
    using assms(1,2) by (simp add: unmutated_used)
qed

theorem records_deterministic_unmutated_witness:
  "unmutated ex_env ex_world \<and> unmutated ex_env ex_world2 \<and>
   xScale (w_props ex_world) = xScale (w_props ex_world2) \<and>
   yScale (w_props ex_world) = yScale (w_props ex_world2) \<and>
   series (w_props ex_world) = series (w_props ex_world2) \<and>
   w_interaction ex_world = w_interaction ex_world2 \<and>
   markerSize (w_props ex_world) \<noteq> markerSize (w_props ex_world2) \<and>
   memo_highlightScope ex_world \<noteq> memo_highlightScope ex_world2 \<and>
   fst (Scatter_cleanData ex_env ex_world) = fst (Scatter_cleanData ex_env ex_world2)"
proof -
  have same: "xScale (w_props ex_world) = xScale (w_props ex_world2)"
    "yScale (w_props ex_world) = yScale (w_props ex_world2)"
    "series (w_props ex_world) = series (w_props ex_world2)"
    "w_interaction ex_world = w_interaction ex_world2"
    by (simp_all add: ex_world_def ex_world2_def)
  have other: "markerSize (w_props ex_world) \<noteq> markerSize (w_props ex_world2)"
    by (simp add: ex_world_def ex_world2_def ex_props_def)
  have cells: "memo_highlightScope ex_world \<noteq> memo_highlightScope ex_world2"
    using ex_world2_cell by (auto simp: ex_world_def)
  show ?thesis
    using records_deterministic_unmutated [OF unmutated_ex_world unmutated_ex_world2 same]
      unmutated_ex_world unmutated_ex_world2 same other cells
    by simp
qed

text \<open>
  C4. A render never changes the interaction context: the context (the item pointed
  at, and the voronoi switch) is the same after the render as before, for every input.
\<close>

theorem interaction_context_unchanged:
  "w_interaction (snd (Scatter E w)) = w_interaction w"
  by (simp add: snd_Scatter Scatter_cleanData_frame)

theorem interaction_context_unchanged_witness:
  "item (w_interaction (snd (Scatter ex_env ex_world))) =
     Some \<lparr>item_type = ''scatter'', seriesId = StrId ''s1'', dataIndex = 0\<rparr>"
  using interaction_context_unchanged [of ex_env ex_world]
  by (simp add: ex_world_def ex_context_def)

text \<open>
  C5. A render only reads the series descriptor: the series, and with it the sequence
  of its data points (each point's x, y and id, in their order), is the same after the
  render as before, for every input.
\<close>

theorem series_unchanged:
  "series (w_props (snd (Scatter E w))) = series (w_props w) \<and>
   series_data (series (w_props (snd (Scatter E w)))) = series_data (series (w_props w))"
  by (simp add: snd_Scatter Scatter_cleanData_frame)

theorem series_unchanged_witness:
  "series_data (series (w_props (snd (Scatter ex_env ex_world)))) =
     [\<lparr>pt_x = Fin 10, pt_y = Fin 10, pt_id = NumId (Fin 1)\<rparr>,
      \<lparr>pt_x = Fin 150, pt_y = Fin 20, pt_id = NumId (Fin 2)\<rparr>,
      \<lparr>pt_x = Fin 30, pt_y = Fin 40, pt_id = NumId (Fin 3)\<rparr>]"
  using series_unchanged [of ex_env ex_world]
  by (simp add: ex_world_def ex_props_def ex_series_def)

text \<open>
  C6. The component takes a props object of exactly six fields (the series, the two
  scales, the marker size, the colour and the optional click callback) and returns one
  group. The group holds one circle per retained point, that is per point in the
  visible range, each keyed by its point's id. Every circle is filled with the given
  colour; its click handler calls the callback with the event and the identifier (type
  \<open>scatter\<close>, the series id, the point's index) when a callback is given and is
  \<open>undefined\<close> otherwise; its cursor is \<open>pointer\<close> exactly when a callback is given.
  Each of the three attributes is the explicit one unless the interaction props, which
  \<open>useInteractionItemProps\<close> supplies from outside this file and which are spread
  last, carry an attribute of that name.
\<close>

theorem group_of_circles:
  assumes "reachable E w"
  shows "let p = w_props w;
             recs = fst (Scatter_cleanData E w);
             cs = children (fst (Scatter E w))
         in p = \<lparr>series = series p, xScale = xScale p, yScale = yScale p,
                  markerSize = markerSize p, color = color p, onItemClick = onItemClick p\<rparr> \<and>
            fst (Scatter E w) = G cs \<and>
            length cs = length recs \<and>
            length recs =
              length (filter (inVisibleRange E (xScale p) (yScale p)) (series_data (series p))) \<and>
            (\<forall>k < length recs.
               key (cs ! k) = dp_id (recs ! k) \<and>
               (interactionProps (recs ! k) ''fill'' = None \<longrightarrow>
                props (cs ! k) ''fill'' = Some (Str (color p))) \<and>
               (interactionProps (recs ! k) ''onClick'' = None \<longrightarrow>
                props (cs ! k) ''onClick'' =
                  Some (case onItemClick p of
                          None \<Rightarrow> Undefined
                        | Some callback \<Rightarrow>
                            Handler (\<lambda>event. callback event
                              (pointCtx (series p) (dp_dataIndex (recs ! k)))))) \<and>
               (interactionProps (recs ! k) ''cursor'' = None \<longrightarrow>
                props (cs ! k) ''cursor'' =
                  Some (Str (if onItemClick p = None then ''unset'' else ''pointer''))))"
proof -
  have len: "length (fst (Scatter_cleanData E w)) =
               length (filter (inVisibleRange E (xScale (w_props w)) (yScale (w_props w)))
                         (series_data (series (w_props w))))"
    using assms by (simp add: reachable_used dataWith_length)
  show ?thesis
    unfolding Let_def Scatter_output using len
    by (simp add: Scatter_circle_key Scatter_circle_fill Scatter_circle_onClick
        Scatter_circle_cursor)
qed

theorem group_of_circles_witness:
  "reachable ex_env ex_world \<and>
   length (children (fst (Scatter ex_env ex_world))) = 2 \<and>
   props (children (fst (Scatter ex_env ex_world)) ! 0) ''fill'' = Some (Str ''red'') \<and>
   props (children (fst (Scatter ex_env ex_world)) ! 0) ''cursor'' = Some (Str ''pointer'') \<and>
   props (children (fst (Scatter ex_env ex_world)) ! 0) ''onClick'' =
     Some (Handler (\<lambda>event. \<lparr>item_type = ''scatter'', seriesId = StrId ''s1'', dataIndex = 0\<rparr>))"
  using group_of_circles [OF reachable_ex_world] reachable_ex_world
  by (simp add: Let_def Scatter_output ex_records ex_world_simps Scatter_circle_def map_add_def
      ex_props_def ex_series_def pointCtx_def)

text \<open>
  C7, as stated: in every render the records the output is built from are the records
  freshly computed from the render's scales, series and interaction context. It fails
  in the second render after \<open>series.highlightScope\<close> was changed in place to
  \<open>{ faded: 'none' }\<close>: the first \<open>useMemo\<close> finds its dependency under the same
  reference and returns the scope of the first render, and the records are faded as
  that scope says.
\<close>

theorem memoization_transparent_counterexample:
  "reachable ex_env ex_world_changed \<and>
   map isFaded (fst (Scatter_cleanData ex_env ex_world_changed)) = [False, True] \<and>
   map isFaded (freshData ex_env (w_props ex_world_changed) (w_interaction ex_world_changed)) =
     [False, False] \<and>
   fst (Scatter_cleanData ex_env ex_world_changed) \<noteq>
     freshData ex_env (w_props ex_world_changed) (w_interaction ex_world_changed)"
proof -
  have "fst (Scatter_cleanData ex_env ex_world_changed) \<noteq>
          freshData ex_env ex_props_changed ex_context"
    using ex_faded_changed ex_faded_fresh by auto
  then show ?thesis
    by (simp add: reachable_ex_world_changed ex_world_changed_simps ex_faded_changed
        ex_faded_fresh)
qed

text \<open>
  C7, amended. Memoization is transparent in instances whose \<open>series.highlightScope\<close>
  object is never changed in place between renders (a scope that comes back under the
  reference of the render before has the content it had then): in every render of such
  an instance, whatever the earlier renders were, the records the output is built from
  are the records freshly computed from this render's scales, series and interaction
  context, and the output is the group of their circles.
\<close>

theorem memoization_transparent_unmutated:
  assumes "unmutated E w"
  shows "fst (Scatter_cleanData E w) = freshData E (w_props w) (w_interaction w) \<and>
         fst (Scatter E w) =
           G (map (Scatter_circle E (w_props w)) (freshData E (w_props w) (w_interaction w)))"
  using assms by (simp add: Scatter_output unmutated_used)

theorem memoization_transparent_unmutated_witness:
  "unmutated ex_env ex_world2 \<and> memo_highlightScope ex_world2 \<noteq> None \<and>
   fst (Scatter_cleanData ex_env ex_world2) =
     freshData ex_env (w_props ex_world2) (w_interaction ex_world2)"
  using memoization_transparent_unmutated [OF unmutated_ex_world2] unmutated_ex_world2
    ex_world2_cell
  by simp

text \<open>
  C8. No rendered record is both highlighted and faded: the faded flag is the
  conjunction of "not highlighted" with \<open>getIsFaded\<close>, so it is false on a highlighted
  point.
\<close>

theorem never_highlighted_and_faded:
  assumes "reachable E w"
  shows "\<forall>r \<in> set (fst (Scatter_cleanData E w)). \<not> (isHighlighted r \<and> isFaded r)"
  using assms dataWith_entry(7) by (fastforce simp: reachable_used)

theorem never_highlighted_and_faded_witness:
  "reachable ex_env ex_world \<and>
   isHighlighted (fst (Scatter_cleanData ex_env ex_world) ! 0) \<and>
   getIsFaded ex_env (item ex_context) (pointCtx ex_series 0) (highlightScope ex_series) \<and>
   \<not> isFaded (fst (Scatter_cleanData ex_env ex_world) ! 0)"
proof -
  have m: "fst (Scatter_cleanData ex_env ex_world) ! 0 \<in> set (fst (Scatter_cleanData ex_env ex_world))"
    by (simp add: ex_records)
  have h: "isHighlighted (fst (Scatter_cleanData ex_env ex_world) ! 0)"
    by (simp add: ex_records)
  have f: "getIsFaded ex_env (item ex_context) (pointCtx ex_series 0) (highlightScope ex_series)"
    by (simp add: ex_env_def ex_context_def ex_scope)
  show ?thesis
    using never_highlighted_and_faded [OF reachable_ex_world] m h f reachable_ex_world
    by blast
qed

text \<open>
  C9. The rendered records keep the order and the identity of the input: the points of
  the records form a subsequence of \<open>series.data\<close>, the data indices increase strictly
  along the records, every record's \<open>dataIndex\<close> is an index of \<open>series.data\<close> and
  its \<open>id\<close> is the id of the point at that index, and there are at most as many
  records as points.
\<close>

theorem order_and_identity_preserved:
  assumes "reachable E w"
  shows "let recs = fst (Scatter_cleanData E w);
             dat = series_data (series (w_props w))
         in subseq (map (\<lambda>r. dat ! dp_dataIndex r) recs) dat \<and>
            sorted_wrt (<) (map dp_dataIndex recs) \<and>
            (\<forall>r \<in> set recs. dp_dataIndex r < length dat \<and>
                             dp_id r = pt_id (dat ! dp_dataIndex r)) \<and>
            length recs \<le> length dat"
proof -
  let ?p = "w_props w"
  let ?c = "w_interaction w"
  let ?dat = "series_data (series ?p)"
  let ?hs = "usedScope w"
  have used: "fst (Scatter_cleanData E w) = dataWith E ?p ?c ?hs"
    using assms by (rule reachable_used)
  have sub: "subseq (map (\<lambda>r. ?dat ! dp_dataIndex r) (dataWith E ?p ?c ?hs)) ?dat"
    by (simp add: dataWith_points)
  have srt: "sorted_wrt (<) (map dp_dataIndex (dataWith E ?p ?c ?hs))"
    unfolding dataWith_indices by (rule sorted_wrt_filter) simp
  have ids: "\<forall>r \<in> set (dataWith E ?p ?c ?hs).
               dp_dataIndex r < length ?dat \<and> dp_id r = pt_id (?dat ! dp_dataIndex r)"
    using dataWith_entry(1,5) by blast
  have len: "length (dataWith E ?p ?c ?hs) \<le> length ?dat"
    by (simp add: dataWith_length)
  show ?thesis
    unfolding Let_def used using sub srt ids len by blast
qed

theorem order_and_identity_preserved_witness:
  "reachable ex_env ex_world \<and>
   map dp_dataIndex (fst (Scatter_cleanData ex_env ex_world)) = [0, 2] \<and>
   map dp_id (fst (Scatter_cleanData ex_env ex_world)) = [NumId (Fin 1), NumId (Fin 3)] \<and>
   sorted_wrt (<) (map dp_dataIndex (fst (Scatter_cleanData ex_env ex_world))) \<and>
   length (fst (Scatter_cleanData ex_env ex_world)) \<le> length (series_data ex_series)"
  using order_and_identity_preserved [OF reachable_ex_world] reachable_ex_world
  by (simp add: Let_def ex_records ex_world_simps ex_props_def ex_series_def)

text \<open>
  C10, as stated: the highlight scope in effect is the series' \<open>highlightScope\<close> merged
  over the defaults. It fails in the second render after \<open>series.highlightScope\<close> was
  changed in place to \<open>{ faded: 'none' }\<close>: the scope in effect is the memoized one,
  with \<open>faded: 'series'\<close>, and the second record is faded although \<open>getIsFaded\<close> is
  false under the merge of the series' present scope.
\<close>

theorem effective_highlight_scope_counterexample:
  "reachable ex_env ex_world_changed \<and>
   series_highlightScope (series (w_props ex_world_changed)) =
     Some [''faded'' \<mapsto> ScopeString ''none''] \<and>
   highlightScope (series (w_props ex_world_changed)) ''faded'' = Some (ScopeString ''none'') \<and>
   usedScope ex_world_changed ''faded'' = Some (ScopeString ''series'') \<and>
   map isFaded (fst (Scatter_cleanData ex_env ex_world_changed)) = [False, True] \<and>
   \<not> getIsFaded ex_env (item (w_interaction ex_world_changed))
        (pointCtx (series (w_props ex_world_changed)) 2)
        (highlightScope (series (w_props ex_world_changed)))"
proof -
  have given: "series_highlightScope (series ex_props_changed) =
                 Some [''faded'' \<mapsto> ScopeString ''none'']"
    by (simp add: ex_props_changed_def)
  have unfaded: "\<not> getIsFaded ex_env (item ex_context) (pointCtx (series ex_props_changed) 2)
                     (highlightScope (series ex_props_changed))"
    by (simp add: ex_env_def ex_scope_changed)
  show ?thesis
    using given unfaded
    by (simp add: reachable_ex_world_changed ex_world_changed_simps ex_faded_changed
        ex_usedScope_changed ex_scope ex_scope_changed)
qed

text \<open>
  C10, amended. In instances whose \<open>series.highlightScope\<close> object is never changed in
  place between renders, the highlight scope in effect is the series'
  \<open>highlightScope\<close> merged over the defaults \<open>{ highlighted: 'item', faded: 'global' }\<close>:
  a property the series omits (or every property, when the series gives no scope) has
  its default, a property the series has, be it with the value \<open>undefined\<close>, has the
  series' value. This one scope is the argument of \<open>getIsHighlighted\<close>, of
  \<open>getIsFaded\<close> and of \<open>useInteractionItemProps\<close> for every record of the render.
\<close>

theorem effective_highlight_scope_unmutated:
  assumes "unmutated E w"
  shows "let srs = series (w_props w);
             hs = usedScope w;
             itm = item (w_interaction w);
             skip = js_or (useVoronoiInteraction (w_interaction w)) (series_disableHover srs)
         in (\<forall>name. hs name =
               (case series_highlightScope srs of
                  None \<Rightarrow>
                    [''highlighted'' \<mapsto> ScopeString ''item'',
                     ''faded'' \<mapsto> ScopeString ''global''] name
                | Some given \<Rightarrow>
                    (case given name of
                       None \<Rightarrow>
                         [''highlighted'' \<mapsto> ScopeString ''item'',
                          ''faded'' \<mapsto> ScopeString ''global''] name
                     | Some v \<Rightarrow> Some v))) \<and>
            (\<forall>r \<in> set (fst (Scatter_cleanData E w)).
               isHighlighted r = getIsHighlighted E itm (pointCtx srs (dp_dataIndex r)) hs \<and>
               isFaded r =
                 (\<not> isHighlighted r \<and> getIsFaded E itm (pointCtx srs (dp_dataIndex r)) hs) \<and>
               interactionProps r =
                 useInteractionItemProps E hs skip (pointCtx srs (dp_dataIndex r)))"
proof -
  have scope: "usedScope w = highlightScope (series (w_props w))"
    using assms by (simp add: usedScope_fresh unmutated_scope_cell)
  have used: "fst (Scatter_cleanData E w) =
                dataWith E (w_props w) (w_interaction w) (usedScope w)"
    using assms by (simp add: reachable_used unmutated_reachable)
  have merge: "\<forall>name. usedScope w name =
               (case series_highlightScope (series (w_props w)) of
                  None \<Rightarrow>
                    [''highlighted'' \<mapsto> ScopeString ''item'',
                     ''faded'' \<mapsto> ScopeString ''global''] name
                | Some given \<Rightarrow>
                    (case given name of
                       None \<Rightarrow>
                         [''highlighted'' \<mapsto> ScopeString ''item'',
                          ''faded'' \<mapsto> ScopeString ''global''] name
                     | Some v \<Rightarrow> Some v))"
    unfolding scope by (simp add: highlightScope_def map_add_def split: option.splits)
  show ?thesis
    unfolding Let_def used using merge dataWith_entry(6,7,8) by blast
qed

theorem effective_highlight_scope_unmutated_witness:
  "unmutated ex_env ex_world_undefined \<and>
   series_highlightScope (series (w_props ex_world_undefined)) =
     Some [''highlighted'' \<mapsto> ScopeUndefined] \<and>
   usedScope ex_world_undefined ''highlighted'' = Some ScopeUndefined \<and>
   usedScope ex_world_undefined ''faded'' = Some (ScopeString ''global'') \<and>
   map isHighlighted (fst (Scatter_cleanData ex_env ex_world_undefined)) = [False, False]"
proof -
  have g: "series_highlightScope (series (w_props ex_world_undefined)) =
             Some [''highlighted'' \<mapsto> ScopeUndefined]"
    by (simp add: ex_shape_undefined(6) ex_series_undefined_def)
  show ?thesis
    using effective_highlight_scope_unmutated [OF unmutated_ex_world_undefined]
      unmutated_ex_world_undefined ex_highlighted_undefined
    unfolding Let_def g
    by simp
qed

end
